theory Spec2Isabelle
  imports Main
begin

section \<open>The API client of the dashboard front end (services/api\_client.py)\<close>

subsection \<open>Python strings and the JSON values the client handles\<close>

text \<open>
  A Python \<open>str\<close> is a sequence of Unicode code points, so it is modelled as a list of
  code points; \<open>lit\<close> turns an ASCII literal into one. \<open>bytes\<close> are 8-bit characters.
\<close>

type_synonym pystr = "nat list"

type_synonym bytes = "char list"

abbreviation lit :: "string \<Rightarrow> pystr" where
  "lit s \<equiv> map of_char s"

text \<open>
  The values \<open>response.json()\<close> yields. A dict is an association list in insertion
  order; a number that is not an integer is kept as its literal, the client never
  computes with it.
\<close>

datatype jvalue =
    JNull
  | JBool bool
  | JInt int
  | JFloat pystr
  | JStr pystr
  | JArr "jvalue list"
  | JObj "(pystr \<times> jvalue) list"

text \<open>
  The text of an exception. \<open>Text s\<close> is the string \<open>s\<close>; \<open>TextStr p v\<close> is \<open>p\<close> followed
  by Python's \<open>str(v)\<close> of a JSON value \<open>v\<close> that is not a string (an f-string formats
  a \<open>str\<close> as itself and anything else through \<open>str()\<close>, which is left symbolic).
\<close>

datatype message = Text pystr | TextStr pystr jvalue

fun fstr :: "pystr \<Rightarrow> jvalue \<Rightarrow> message" where
  "fstr p (JStr s) = Text (p @ s)"
| "fstr p v = TextStr p v"

text \<open>Decimal rendering of an integer, as an f-string renders \<open>status_code\<close>.\<close>

fun dec :: "nat \<Rightarrow> pystr" where
  "dec n = (if n < 10 then [48 + n] else dec (n div 10) @ [48 + n mod 10])"

declare dec.simps [simp del]

definition str_int :: "int \<Rightarrow> pystr" where
  "str_int i = (if i < 0 then 45 # dec (nat (- i)) else dec (nat i))"

subsection \<open>Exceptions\<close>

text \<open>
  \<open>ValueError\<close> and \<open>AttributeError\<close> are Python's builtins; the three \<open>Api...\<close> classes
  are the module's own (\<open>ApiValidationError\<close> derives from \<open>ValueError\<close>,
  \<open>ApiConnectionError\<close> from \<open>IOError\<close>). \<open>RequestException\<close> is an exception of the
  \<open>requests\<close> library raised by \<open>session.get\<close>/\<open>session.post\<close> itself for a failure of
  the transport, with its text; \<open>RetryError\<close> is the one \<open>requests\<close> raises when the
  retries of the mounted \<open>Retry\<close> are used up (its text names the connection pool and the
  URL and is not modelled).
\<close>

datatype error =
    ValueError message
  | AttributeError message
  | ApiConnectionError message
  | ApiValidationError message
  | ApiServerError message
  | RequestException pystr
  | RetryError

fun is_connection_error :: "error \<Rightarrow> bool" where
  "is_connection_error (ApiConnectionError m) = True"
| "is_connection_error e = False"

fun is_server_error :: "error \<Rightarrow> bool" where
  "is_server_error (ApiServerError m) = True"
| "is_server_error e = False"

subsection \<open>String helpers of Python\<close>

text \<open>The code points \<open>str.isspace\<close> accepts, which \<open>str.strip()\<close> removes at both ends.\<close>

definition py_isspace :: "nat \<Rightarrow> bool" where
  "py_isspace c \<longleftrightarrow>
     (9 \<le> c \<and> c \<le> 13) \<or> (28 \<le> c \<and> c \<le> 32) \<or> c = 133 \<or> c = 160 \<or> c = 5760 \<or>
     (8192 \<le> c \<and> c \<le> 8202) \<or> c = 8232 \<or> c = 8233 \<or> c = 8239 \<or> c = 8287 \<or> c = 12288"

definition strip :: "pystr \<Rightarrow> pystr" where
  "strip s = rev (dropWhile py_isspace (rev (dropWhile py_isspace s)))"

definition rstrip :: "pystr \<Rightarrow> pystr \<Rightarrow> pystr" where
  "rstrip chars s = rev (dropWhile (\<lambda>c. c \<in> set chars) (rev s))"

subsection \<open>Requests and responses\<close>

text \<open>
  A response of the \<open>requests\<close> library, as far as the client reads it: the status code,
  \<open>response.text\<close>, and the outcome of \<open>response.json()\<close>, which is either the parsed
  value or a JSON decoding error with its text (with \<open>requests\<close> a
  \<open>requests.exceptions.JSONDecodeError\<close>, at once a \<open>RequestException\<close> and a
  \<open>ValueError\<close>).
\<close>

record response =
  status_code :: int
  resp_text :: pystr
  resp_json :: "pystr + jvalue"

datatype request =
    Get pystr int
  | PostFiles pystr "(pystr \<times> pystr \<times> bytes) list" int
  | PostJson pystr jvalue int

text \<open>
  The outcome of the last attempt the mounted adapter makes for a request: the response
  of the server, or a transport exception of the \<open>requests\<close> library with its text.
\<close>

type_synonym session_send = "request \<Rightarrow> pystr + response"

subsection \<open>The client\<close>

record retry =
  total :: int
  status_forcelist :: "int list"
  backoff_factor :: int

record api_client =
  base_url :: pystr
  timeout :: int
  max_retries :: retry

definition init :: "pystr \<Rightarrow> int \<Rightarrow> int \<Rightarrow> error + api_client" where
  "init base_url' timeout' retries =
     (if base_url' = [] then Inl (ValueError (Text (lit ''API base_url cannot be empty.'')))
      else
        let retry_strategy =
              \<lparr>total = retries, status_forcelist = [429, 500, 502, 503, 504], backoff_factor = 1\<rparr>
        in Inr \<lparr>base_url = rstrip (lit ''/'') base_url', timeout = timeout',
                max_retries = retry_strategy\<rparr>)"

text \<open>
  \<open>response.raise_for_status()\<close> raises \<open>HTTPError\<close> for 4xx/5xx responses, that is for
  a status code from 400 to 599, and does nothing otherwise.
\<close>

definition raise_for_status :: "response \<Rightarrow> bool" where
  "raise_for_status r \<longleftrightarrow> 400 \<le> status_code r \<and> status_code r < 600"

fun py_type_name :: "jvalue \<Rightarrow> string" where
  "py_type_name JNull = ''NoneType''"
| "py_type_name (JBool b) = ''bool''"
| "py_type_name (JInt i) = ''int''"
| "py_type_name (JFloat f) = ''float''"
| "py_type_name (JStr s) = ''str''"
| "py_type_name (JArr xs) = ''list''"
| "py_type_name (JObj kvs) = ''dict''"

text \<open>A string between two apostrophes (code point 39).\<close>

definition quoted :: "pystr \<Rightarrow> pystr" where
  "quoted s = 39 # s @ [39]"

text \<open>
  \<open>error_data.get(key, default)\<close>: the lookup of a dict; any other JSON value has no
  attribute \<open>get\<close>.
\<close>

fun get :: "jvalue \<Rightarrow> pystr \<Rightarrow> jvalue \<Rightarrow> error + jvalue" where
  "get (JObj kvs) key dflt =
     Inr (case map_of kvs key of Some v \<Rightarrow> v | None \<Rightarrow> dflt)"
| "get v key dflt =
     Inl (AttributeError
            (Text (quoted (lit (py_type_name v)) @ lit '' object has no attribute '' @
                   quoted (lit ''get''))))"

text \<open>The handler of the \<open>HTTPError\<close> in \<open>_handle_response\<close> (lines 84 to 97).\<close>

definition on_http_error :: "response \<Rightarrow> error + jvalue" where
  "on_http_error r =
     (let status = status_code r;
          extracted =
            (case resp_json r of
               Inr error_data \<Rightarrow> get error_data (lit ''error'') (JStr (resp_text r))
             | Inl decode_error \<Rightarrow> Inr (JStr (resp_text r)))
      in case extracted of
           Inl err \<Rightarrow> Inl err
         | Inr error_message \<Rightarrow>
             if 400 \<le> status \<and> status < 500 then
               Inl (ApiValidationError
                      (fstr (lit ''API Validation Error ('' @ str_int status @ lit ''): '')
                         error_message))
             else if 500 \<le> status \<and> status < 600 then
               Inl (ApiServerError
                      (fstr (lit ''API Server Error ('' @ str_int status @ lit ''): '')
                         error_message))
             else
               Inl (ApiConnectionError
                      (fstr (lit ''Unexpected HTTP Error ('' @ str_int status @ lit ''): '')
                         error_message)))"

definition handle_response :: "response \<Rightarrow> error + jvalue" where
  "handle_response r =
     (if raise_for_status r then on_http_error r
      else if status_code r = 204 then Inr (JObj [])
      else
        (case resp_json r of
           Inr data \<Rightarrow> Inr data
         | Inl decode_error \<Rightarrow>
             Inl (ApiConnectionError
                    (Text (lit ''Failed to connect to the API: '' @ decode_error)))))"

text \<open>
  \<open>except ApiConnectionError as e: raise e\<close>: the three operations log and raise the
  same exception again; every other exception passes through.
\<close>

fun reraise :: "error + jvalue \<Rightarrow> error + jvalue" where
  "reraise (Inl (ApiConnectionError m)) = Inl (ApiConnectionError m)"
| "reraise res = res"

text \<open>
  Each operation returns its result and the list of the HTTP requests it has issued.
  An exception of \<open>session.get\<close>/\<open>session.post\<close> is raised outside
  \<open>_handle_response\<close> and is no \<open>ApiConnectionError\<close>, so it leaves the operation as it is.
\<close>

text \<open>
  The three operations share one shape (call the session, hand the response to
  \<open>_handle_response\<close>, raise an \<open>ApiConnectionError\<close> again); \<open>send\<close> is that shape.
\<close>

definition send :: "session_send \<Rightarrow> request \<Rightarrow> (error + jvalue) \<times> request list" where
  "send session req =
     (case session req of
        Inl exn \<Rightarrow> (Inl (RequestException exn), [req])
      | Inr r \<Rightarrow> (reraise (handle_response r), [req]))"

text \<open>
  \<open>session.get\<close> of the session mounted in \<open>__init__\<close> (lines 54 to 61). \<open>GET\<close> is one of
  the methods \<open>Retry\<close> retries, and \<open>Retry\<close> raises when the retries are used up
  (\<open>raise_on_status\<close> is on by default). So a response whose status is in the
  \<open>status_forcelist\<close> every client mounts is never returned: the request is sent again
  until another answer comes, and when the last attempt still has such a status
  \<open>session.get\<close> raises \<open>RetryError\<close>. \<open>session.post\<close> returns every response, since \<open>POST\<close> is
  not among the methods \<open>Retry\<close> retries on a status; this is what \<open>send\<close> does.
\<close>

definition retry_statuses :: "int list" where
  "retry_statuses = [429, 500, 502, 503, 504]"

definition session_get :: "session_send \<Rightarrow> request \<Rightarrow> error + response" where
  "session_get session req =
     (case session req of
        Inl exn \<Rightarrow> Inl (RequestException exn)
      | Inr r \<Rightarrow> if status_code r \<in> set retry_statuses then Inl RetryError else Inr r)"

definition health_check :: "api_client \<Rightarrow> session_send \<Rightarrow> (error + jvalue) \<times> request list" where
  "health_check self session =
     (let url = base_url self @ lit ''/health'';
          req = Get url (timeout self)
      in case session_get session req of
           Inl exn \<Rightarrow> (Inl exn, [req])
         | Inr r \<Rightarrow> (reraise (handle_response r), [req]))"

definition upload_file ::
  "api_client \<Rightarrow> session_send \<Rightarrow> bytes \<Rightarrow> pystr \<Rightarrow> (error + jvalue) \<times> request list" where
  "upload_file self session file_content file_name =
     (let url = base_url self @ lit ''/upload'';
          files = [(lit ''file'', (file_name, file_content))]
      in send session (PostFiles url files (timeout self)))"

definition process_text ::
  "api_client \<Rightarrow> session_send \<Rightarrow> pystr \<Rightarrow> pystr option \<Rightarrow> (error + jvalue) \<times> request list" where
  "process_text self session text document_name =
     (let url = base_url self @ lit ''/process-text''
      in if text = [] \<or> strip text = [] then
           (Inl (ValueError (Text (lit ''Text content cannot be empty.''))), [])
         else
           let payload = [(lit ''text'', JStr text)];
               payload' =
                 (case document_name of
                    Some name \<Rightarrow>
                      if name \<noteq> [] then payload @ [(lit ''name'', JStr name)] else payload
                  | None \<Rightarrow> payload)
           in send session (PostJson url (JObj payload') (timeout self)))"

subsection \<open>Responses and servers of the scenarios\<close>

text \<open>A server that answers every request with the same response.\<close>

definition always :: "response \<Rightarrow> session_send" where
  "always r req = Inr r"

text \<open>The client \<open>ApiClient("http://x/api")\<close> with the default timeout and retry count.\<close>

definition client_x :: api_client where
  "client_x =
     \<lparr>base_url = lit ''http://x/api'', timeout = 30,
      max_retries =
        \<lparr>total = 3, status_forcelist = [429, 500, 502, 503, 504], backoff_factor = 1\<rparr>\<rparr>"


definition resp_processed :: response where
  "resp_processed =
     \<lparr>status_code = 200, resp_text = lit ''{\"document\":{},\"tasks\":[]}'',
      resp_json = Inr (JObj [(lit ''document'', JObj []), (lit ''tasks'', JArr [])])\<rparr>"

definition resp_not_found :: response where
  "resp_not_found =
     \<lparr>status_code = 404, resp_text = lit ''{\"error\":\"not found\"}'',
      resp_json = Inr (JObj [(lit ''error'', JStr (lit ''not found''))])\<rparr>"

definition resp_overloaded :: response where
  "resp_overloaded =
     \<lparr>status_code = 503, resp_text = lit ''{\"error\":\"overloaded\"}'',
      resp_json = Inr (JObj [(lit ''error'', JStr (lit ''overloaded''))])\<rparr>"

definition resp_not_implemented :: response where
  "resp_not_implemented =
     \<lparr>status_code = 501, resp_text = lit ''{\"error\":\"not implemented\"}'',
      resp_json = Inr (JObj [(lit ''error'', JStr (lit ''not implemented''))])\<rparr>"

text \<open>Two responses with an empty body, which \<open>response.json()\<close> cannot decode.\<close>

definition resp_not_modified :: response where
  "resp_not_modified =
     \<lparr>status_code = 304, resp_text = [],
      resp_json = Inl (lit ''Expecting value: line 1 column 1 (char 0)'')\<rparr>"

definition resp_no_content :: response where
  "resp_no_content =
     \<lparr>status_code = 204, resp_text = [],
      resp_json = Inl (lit ''Expecting value: line 1 column 1 (char 0)'')\<rparr>"


subsection \<open>The message rule in the words of the specification\<close>

text \<open>
  The body of an error response either does not decode as JSON or decodes to a dict;
  on any other JSON value \<open>error_data.get\<close> raises \<open>AttributeError\<close>.
\<close>

fun dict_or_not_json :: "pystr + jvalue \<Rightarrow> bool" where
  "dict_or_not_json (Inl decode_error) = True"
| "dict_or_not_json (Inr (JObj kvs)) = True"
| "dict_or_not_json (Inr v) = False"

text \<open>
  The specification's rule: the response's \<open>error\<close> field if present, else the raw body.
\<close>

definition spec_error_message :: "response \<Rightarrow> jvalue" where
  "spec_error_message r =
     (case resp_json r of
        Inr (JObj kvs) \<Rightarrow>
          (case map_of kvs (lit ''error'') of Some v \<Rightarrow> v | None \<Rightarrow> JStr (resp_text r))
      | _ \<Rightarrow> JStr (resp_text r))"

section \<open>Properties\<close>

subsection \<open>Auxiliary facts\<close>

lemma all_dropWhile: "(\<forall>x\<in>set (dropWhile P xs). P x) \<longleftrightarrow> (\<forall>x\<in>set xs. P x)"
  by (induction xs) auto

lemma strip_empty_iff: "strip s = [] \<longleftrightarrow> (\<forall>c\<in>set s. py_isspace c)"
  by (simp add: strip_def dropWhile_eq_Nil_conv all_dropWhile)

lemma reraise_id: "reraise res = res"
  by (cases res rule: reraise.cases) simp_all

lemma rstrip_snoc:
  "rstrip [c] (xs @ [x]) = (if x = c then rstrip [c] xs else xs @ [x])"
  by (simp add: rstrip_def)

lemma rstrip_decomp: "\<exists>k. s = rstrip [c] s @ replicate k c"
proof (induction s rule: rev_induct)
  case Nil
  show ?case by (simp add: rstrip_def)
next
  case (snoc x xs)
  then obtain k where k: "xs = rstrip [c] xs @ replicate k c" by blast
  show ?case
  proof (cases "x = c")
    case True
    have "xs @ [x] = rstrip [c] xs @ replicate (Suc k) c"
      using k True by (metis append_assoc replicate_append_same replicate_Suc)
    then show ?thesis using True by (metis rstrip_snoc)
  next
    case False
    then have "xs @ [x] = rstrip [c] (xs @ [x]) @ replicate 0 c"
      by (simp add: rstrip_snoc)
    then show ?thesis by blast
  qed
qed

lemma rstrip_last: "rstrip [c] s = [] \<or> last (rstrip [c] s) \<noteq> c"
  by (induction s rule: rev_induct) (simp_all add: rstrip_snoc, simp add: rstrip_def)

lemma send_fst: "session req = Inr r \<Longrightarrow> fst (send session req) = handle_response r"
  by (simp add: send_def reraise_id)

lemma send_snd: "snd (send session req) = [req]"
  by (simp add: send_def split: sum.splits)

lemma send_answered:
  "snd (send session req0) = [req] \<Longrightarrow> session req = Inr r \<Longrightarrow>
   fst (send session req0) = handle_response r"
  by (simp add: send_snd send_fst)

lemma init_status_forcelist:
  "init url t n = Inr c \<Longrightarrow> status_forcelist (max_retries c) = retry_statuses"
  by (auto simp: init_def retry_statuses_def split: if_splits)

lemma health_check_snd:
  "snd (health_check self session) = [Get (base_url self @ lit ''/health'') (timeout self)]"
  by (simp add: health_check_def Let_def split: sum.splits)

lemma health_check_returned:
  "session (Get (base_url self @ lit ''/health'') (timeout self)) = Inr r \<Longrightarrow>
   status_code r \<notin> set retry_statuses \<Longrightarrow>
   fst (health_check self session) = handle_response r"
  by (simp add: health_check_def Let_def session_get_def reraise_id)

lemma health_check_retried:
  "session (Get (base_url self @ lit ''/health'') (timeout self)) = Inr r \<Longrightarrow>
   status_code r \<in> set retry_statuses \<Longrightarrow>
   fst (health_check self session) = Inl RetryError"
  by (simp add: health_check_def Let_def session_get_def)

lemma health_check_answered:
  "snd (health_check self session) = [req] \<Longrightarrow> session req = Inr r \<Longrightarrow>
   status_code r \<notin> set retry_statuses \<Longrightarrow>
   fst (health_check self session) = handle_response r"
  by (simp add: health_check_snd health_check_returned)


lemma upload_file_answered:
  "snd (upload_file self session content name) = [req] \<Longrightarrow> session req = Inr r \<Longrightarrow>
   fst (upload_file self session content name) = handle_response r"
  by (simp add: upload_file_def Let_def send_answered)

lemma process_text_answered:
  "snd (process_text self session text document_name) = [req] \<Longrightarrow> session req = Inr r \<Longrightarrow>
   fst (process_text self session text document_name) = handle_response r"
  by (simp add: process_text_def Let_def send_answered split: if_splits)

lemma extracted_message:
  "dict_or_not_json (resp_json r) \<Longrightarrow>
   (case resp_json r of
      Inr error_data \<Rightarrow> get error_data (lit ''error'') (JStr (resp_text r))
    | Inl decode_error \<Rightarrow> Inr (JStr (resp_text r))) = Inr (spec_error_message r)"
  by (cases "resp_json r" rule: dict_or_not_json.cases) (simp_all add: spec_error_message_def)


lemma handle_response_204: "status_code r = 204 \<Longrightarrow> handle_response r = Inr (JObj [])"
  by (simp add: handle_response_def raise_for_status_def)

lemma handle_response_other:
  assumes "\<not> (400 \<le> status_code r \<and> status_code r < 600)"
  shows "handle_response r =
     (if status_code r = 204 then Inr (JObj [])
      else case resp_json r of
             Inr data \<Rightarrow> Inr data
           | Inl decode_error \<Rightarrow>
               Inl (ApiConnectionError
                      (Text (lit ''Failed to connect to the API: '' @ decode_error))))"
  using assms by (auto simp: handle_response_def raise_for_status_def)

lemma on_http_error_other:
  assumes "\<not> (400 \<le> status_code r \<and> status_code r < 600)"
    and "dict_or_not_json (resp_json r)"
  shows "on_http_error r =
     Inl (ApiConnectionError
            (fstr (lit ''Unexpected HTTP Error ('' @ str_int (status_code r) @ lit ''): '')
               (spec_error_message r)))"
  using assms by (auto simp: on_http_error_def extracted_message)

lemma str_int_404: "str_int 404 = lit ''404''"
  by (simp add: str_int_def dec.simps)

lemma str_int_503: "str_int 503 = lit ''503''"
  by (simp add: str_int_def dec.simps)

lemma str_int_501: "str_int 501 = lit ''501''"
  by (simp add: str_int_def dec.simps)

lemma str_int_304: "str_int 304 = lit ''304''"
  by (simp add: str_int_def dec.simps)


lemma handle_not_found:
  "handle_response resp_not_found =
     Inl (ApiValidationError (Text (lit ''API Validation Error (404): not found'')))"
  by (simp add: handle_response_def raise_for_status_def on_http_error_def resp_not_found_def
      str_int_404)

lemma handle_overloaded:
  "handle_response resp_overloaded =
     Inl (ApiServerError (Text (lit ''API Server Error (503): overloaded'')))"
  by (simp add: handle_response_def raise_for_status_def on_http_error_def resp_overloaded_def
      str_int_503)

lemma handle_not_implemented:
  "handle_response resp_not_implemented =
     Inl (ApiServerError (Text (lit ''API Server Error (501): not implemented'')))"
  by (simp add: handle_response_def raise_for_status_def on_http_error_def
      resp_not_implemented_def str_int_501)

lemma handle_not_modified:
  "handle_response resp_not_modified =
     Inl (ApiConnectionError
            (Text (lit ''Failed to connect to the API: Expecting value: line 1 column 1 (char 0)'')))"
  by (simp add: handle_response_def raise_for_status_def resp_not_modified_def)

subsection \<open>Blank text is rejected before any request\<close>

text \<open>
  Claim C1. For every text that is empty or consists only of whitespace, \<open>process_text\<close>
  raises the \<open>ValueError\<close> "Text content cannot be empty." (the builtin class from which
  \<open>ApiValidationError\<close> derives) and has issued no HTTP request, whatever the document
  name and whatever the server would have answered.
\<close>

theorem process_text_blank_rejected:
  "text = [] \<or> (\<forall>c\<in>set text. py_isspace c) \<Longrightarrow>
   process_text self session text document_name =
     (Inl (ValueError (Text (lit ''Text content cannot be empty.''))), [])"
  by (auto simp: process_text_def strip_empty_iff)

text \<open>
  A text of a space, a tab, a line feed and a no-break space, with a document name; and
  the empty text.
\<close>

theorem process_text_blank_rejected_witness:
  "list_all py_isspace [32, 9, 10, 160] \<and>
   process_text client_x (always resp_processed) [32, 9, 10, 160] (Some (lit ''notes'')) =
     (Inl (ValueError (Text (lit ''Text content cannot be empty.''))), []) \<and>
   process_text client_x (always resp_processed) [] None =
     (Inl (ValueError (Text (lit ''Text content cannot be empty.''))), [])"
proof -
  have h: "[32, 9, 10, 160] = [] \<or> (\<forall>c\<in>set [32, 9, 10, 160]. py_isspace c)"
    by (simp add: py_isspace_def)
  have e: "([]::pystr) = [] \<or> (\<forall>c\<in>set ([]::pystr). py_isspace c)"
    by simp
  have w: "list_all py_isspace [32, 9, 10, 160]"
    by (simp add: py_isspace_def)
  show ?thesis
    using w
      process_text_blank_rejected [OF h, of client_x "always resp_processed" "Some (lit ''notes'')"]
      process_text_blank_rejected [OF e, of client_x "always resp_processed" None]
    by simp
qed

subsection \<open>Error responses\<close>

text \<open>
  Claim C2, as the code has it. For every response with a status code in [400,500) whose
  body does not decode as JSON or decodes to a JSON object, response handling raises
  \<open>ApiValidationError\<close>, and its message is \<open>"API Validation Error (<status>): "\<close>
  followed by the extracted message: the \<open>error\<close> field of the body when the body is a JSON
  object with that field, and the raw body text otherwise.
\<close>

theorem client_error_message:
  assumes "400 \<le> status_code r" and "status_code r < 500"
    and "dict_or_not_json (resp_json r)"
  shows "handle_response r =
     Inl (ApiValidationError
            (fstr (lit ''API Validation Error ('' @ str_int (status_code r) @ lit ''): '')
               (spec_error_message r)))"
  using assms
  by (simp add: handle_response_def raise_for_status_def on_http_error_def extracted_message)

text \<open>The response \<open>404 {"error":"not found"}\<close>.\<close>

theorem client_error_message_witness:
  "400 \<le> status_code resp_not_found \<and> status_code resp_not_found < 500 \<and>
   dict_or_not_json (resp_json resp_not_found) \<and>
   handle_response resp_not_found =
     Inl (ApiValidationError (Text (lit ''API Validation Error (404): not found'')))"
proof -
  have h: "400 \<le> status_code resp_not_found" "status_code resp_not_found < 500"
    "dict_or_not_json (resp_json resp_not_found)"
    by (simp_all add: resp_not_found_def)
  show ?thesis
    using h client_error_message [OF h]
    by (simp add: resp_not_found_def spec_error_message_def str_int_404)
qed

text \<open>
  For \<open>404 {"error":"not found"}\<close> the message of the error raised is not \<open>"not found"\<close>:
  it is \<open>"API Validation Error (404): not found"\<close>.
\<close>

theorem client_error_message_counterexample:
  "handle_response resp_not_found =
     Inl (ApiValidationError (Text (lit ''API Validation Error (404): not found''))) \<and>
   handle_response resp_not_found \<noteq> Inl (ApiValidationError (Text (lit ''not found'')))"
  by (simp add: handle_not_found)

text \<open>
  Claim C3, as the code has it. For every response with a status code in [500,600) whose
  body does not decode as JSON or decodes to a JSON object, response handling raises
  \<open>ApiServerError\<close>, and its message is \<open>"API Server Error (<status>): "\<close> followed by the
  message extracted by the rule of the 4xx responses: the \<open>error\<close> field of the body when
  the body is a JSON object with that field, and the raw body text otherwise.
\<close>

theorem server_error_message:
  assumes "500 \<le> status_code r" and "status_code r < 600"
    and "dict_or_not_json (resp_json r)"
  shows "handle_response r =
     Inl (ApiServerError
            (fstr (lit ''API Server Error ('' @ str_int (status_code r) @ lit ''): '')
               (spec_error_message r)))"
  using assms
  by (simp add: handle_response_def raise_for_status_def on_http_error_def extracted_message)

text \<open>The response \<open>503 {"error":"overloaded"}\<close>.\<close>

theorem server_error_message_witness:
  "500 \<le> status_code resp_overloaded \<and> status_code resp_overloaded < 600 \<and>
   dict_or_not_json (resp_json resp_overloaded) \<and>
   handle_response resp_overloaded =
     Inl (ApiServerError (Text (lit ''API Server Error (503): overloaded'')))"
proof -
  have h: "500 \<le> status_code resp_overloaded" "status_code resp_overloaded < 600"
    "dict_or_not_json (resp_json resp_overloaded)"
    by (simp_all add: resp_overloaded_def)
  show ?thesis
    using h server_error_message [OF h]
    by (simp add: resp_overloaded_def spec_error_message_def str_int_503)
qed

text \<open>
  For \<open>503 {"error":"overloaded"}\<close> the message of the error raised is not the \<open>error\<close>
  field of the body: it is \<open>"API Server Error (503): overloaded"\<close>.
\<close>

theorem server_error_message_counterexample:
  "handle_response resp_overloaded =
     Inl (ApiServerError (Text (lit ''API Server Error (503): overloaded''))) \<and>
   handle_response resp_overloaded \<noteq> Inl (ApiServerError (Text (lit ''overloaded'')))"
  by (simp add: handle_overloaded)

subsection \<open>What the health check surfaces\<close>

text \<open>
  Claim C4, as the code has it. When \<open>session.get\<close> returns the answer of the server to the
  health request, which it does for every status but the retried ones 429, 500, 502, 503
  and 504, \<open>health_check\<close> surfaces what the shared response handling yields: an
  \<open>ApiValidationError\<close> for a 4xx response and an \<open>ApiServerError\<close> for a 5xx response (the
  body not decoding as JSON or decoding to a JSON object), and for a response with any
  other status every error it surfaces is an \<open>ApiConnectionError\<close>.
\<close>

theorem health_check_outcomes:
  assumes "session (Get (base_url self @ lit ''/health'') (timeout self)) = Inr r"
    and "status_code r \<notin> set retry_statuses"
  shows "fst (health_check self session) = handle_response r \<and>
    (400 \<le> status_code r \<and> status_code r < 500 \<and> dict_or_not_json (resp_json r) \<longrightarrow>
       (\<exists>m. fst (health_check self session) = Inl (ApiValidationError m))) \<and>
    (500 \<le> status_code r \<and> status_code r < 600 \<and> dict_or_not_json (resp_json r) \<longrightarrow>
       (\<exists>m. fst (health_check self session) = Inl (ApiServerError m))) \<and>
    (\<not> (400 \<le> status_code r \<and> status_code r < 600) \<longrightarrow>
       (\<forall>e. fst (health_check self session) = Inl e \<longrightarrow> is_connection_error e))"
proof -
  have eq: "fst (health_check self session) = handle_response r"
    using assms by (rule health_check_returned)
  have v: "400 \<le> status_code r \<and> status_code r < 500 \<and> dict_or_not_json (resp_json r) \<longrightarrow>
       (\<exists>m. handle_response r = Inl (ApiValidationError m))"
    by (simp add: handle_response_def raise_for_status_def on_http_error_def extracted_message)
  have s: "500 \<le> status_code r \<and> status_code r < 600 \<and> dict_or_not_json (resp_json r) \<longrightarrow>
       (\<exists>m. handle_response r = Inl (ApiServerError m))"
    by (simp add: handle_response_def raise_for_status_def on_http_error_def extracted_message)
  have c: "\<not> (400 \<le> status_code r \<and> status_code r < 600) \<longrightarrow>
       (\<forall>e. handle_response r = Inl e \<longrightarrow> is_connection_error e)"
    using handle_response_other [of r] by (auto split: if_splits sum.splits)
  show ?thesis using eq v s c by simp
qed

text \<open>
  The health check of \<open>http://x/api\<close> answered by \<open>404 {"error":"not found"}\<close>, by
  \<open>501 {"error":"not implemented"}\<close> and by a 304 with an empty body; none of the three
  statuses is retried.
\<close>

theorem health_check_outcomes_witness:
  "status_code resp_not_found \<notin> set retry_statuses \<and>
   status_code resp_not_implemented \<notin> set retry_statuses \<and>
   status_code resp_not_modified \<notin> set retry_statuses \<and>
   fst (health_check client_x (always resp_not_found)) =
     Inl (ApiValidationError (Text (lit ''API Validation Error (404): not found''))) \<and>
   fst (health_check client_x (always resp_not_implemented)) =
     Inl (ApiServerError (Text (lit ''API Server Error (501): not implemented''))) \<and>
   fst (health_check client_x (always resp_not_modified)) =
     Inl (ApiConnectionError
            (Text (lit ''Failed to connect to the API: Expecting value: line 1 column 1 (char 0)'')))"
proof -
  have a: "always resp_not_found (Get (base_url client_x @ lit ''/health'') (timeout client_x)) =
      Inr resp_not_found"
    by (simp add: always_def)
  have b: "always resp_not_implemented
      (Get (base_url client_x @ lit ''/health'') (timeout client_x)) = Inr resp_not_implemented"
    by (simp add: always_def)
  have c: "always resp_not_modified
      (Get (base_url client_x @ lit ''/health'') (timeout client_x)) = Inr resp_not_modified"
    by (simp add: always_def)
  have a': "status_code resp_not_found \<notin> set retry_statuses"
    by (simp add: resp_not_found_def retry_statuses_def)
  have b': "status_code resp_not_implemented \<notin> set retry_statuses"
    by (simp add: resp_not_implemented_def retry_statuses_def)
  have c': "status_code resp_not_modified \<notin> set retry_statuses"
    by (simp add: resp_not_modified_def retry_statuses_def)
  have "fst (health_check client_x (always resp_not_found)) =
     Inl (ApiValidationError (Text (lit ''API Validation Error (404): not found'')))"
    using health_check_outcomes
      [where session = "always resp_not_found" and self = client_x, OF a a']
    by (simp add: handle_not_found)
  moreover have "fst (health_check client_x (always resp_not_implemented)) =
     Inl (ApiServerError (Text (lit ''API Server Error (501): not implemented'')))"
    using health_check_outcomes
      [where session = "always resp_not_implemented" and self = client_x, OF b b']
    by (simp add: handle_not_implemented)
  moreover have "fst (health_check client_x (always resp_not_modified)) =
     Inl (ApiConnectionError
            (Text (lit ''Failed to connect to the API: Expecting value: line 1 column 1 (char 0)'')))"
    using health_check_outcomes
      [where session = "always resp_not_modified" and self = client_x, OF c c']
    by (simp add: handle_not_modified)
  ultimately show ?thesis using a' b' c' by simp
qed

text \<open>
  A health check answered by \<open>404 {"error":"not found"}\<close>, a status that is not retried,
  fails, and the error surfaced is an \<open>ApiValidationError\<close>, no \<open>ApiConnectionError\<close>.
\<close>

theorem health_check_counterexample:
  "fst (health_check client_x (always resp_not_found)) =
     Inl (ApiValidationError (Text (lit ''API Validation Error (404): not found''))) \<and>
   \<not> is_connection_error
        (ApiValidationError (Text (lit ''API Validation Error (404): not found'')))"
proof -
  have a: "always resp_not_found (Get (base_url client_x @ lit ''/health'') (timeout client_x)) =
      Inr resp_not_found"
    by (simp add: always_def)
  have n: "status_code resp_not_found \<notin> set retry_statuses"
    by (simp add: resp_not_found_def retry_statuses_def)
  show ?thesis
    using health_check_returned
      [where session = "always resp_not_found" and self = client_x, OF a n]
    by (simp add: handle_not_found)
qed

subsection \<open>Statuses outside 4xx and 5xx\<close>

text \<open>
  Claim C5, as the code has it. For every response whose status code is outside [400,600)
  (among them every status that is neither 2xx, 4xx nor 5xx), response handling raises
  no server-kind error: every error it raises is an \<open>ApiConnectionError\<close>. Unless the
  status is 204, it returns the body where the body decodes as JSON and raises
  \<open>ApiConnectionError\<close> "Failed to connect to the API: ..." where it does not. The handler
  of an HTTP error with such a status raises an \<open>ApiConnectionError\<close> too.
\<close>

theorem other_status_connection_error:
  assumes "\<not> (400 \<le> status_code r \<and> status_code r < 600)"
  shows "(\<forall>e. handle_response r = Inl e \<longrightarrow> is_connection_error e \<and> \<not> is_server_error e) \<and>
         (status_code r \<noteq> 204 \<longrightarrow>
            (\<forall>d. resp_json r = Inl d \<longrightarrow>
               handle_response r =
                 Inl (ApiConnectionError (Text (lit ''Failed to connect to the API: '' @ d)))) \<and>
            (\<forall>data. resp_json r = Inr data \<longrightarrow> handle_response r = Inr data)) \<and>
         (dict_or_not_json (resp_json r) \<longrightarrow>
            (\<exists>m. on_http_error r = Inl (ApiConnectionError m)))"
proof -
  have "\<forall>e. handle_response r = Inl e \<longrightarrow> is_connection_error e \<and> \<not> is_server_error e"
    using handle_response_other [OF assms] by (auto split: if_splits sum.splits)
  moreover have "status_code r \<noteq> 204 \<longrightarrow>
            (\<forall>d. resp_json r = Inl d \<longrightarrow>
               handle_response r =
                 Inl (ApiConnectionError (Text (lit ''Failed to connect to the API: '' @ d)))) \<and>
            (\<forall>data. resp_json r = Inr data \<longrightarrow> handle_response r = Inr data)"
    using handle_response_other [OF assms] by simp
  moreover have "dict_or_not_json (resp_json r) \<longrightarrow>
            (\<exists>m. on_http_error r = Inl (ApiConnectionError m))"
    using on_http_error_other [OF assms] by blast
  ultimately show ?thesis by blast
qed

text \<open>A 304 with an empty body, and \<open>200 {"document":{},"tasks":[]}\<close>.\<close>

theorem other_status_connection_error_witness:
  "\<not> (400 \<le> status_code resp_not_modified \<and> status_code resp_not_modified < 600) \<and>
   status_code resp_not_modified \<noteq> 204 \<and>
   dict_or_not_json (resp_json resp_not_modified) \<and>
   handle_response resp_not_modified =
     Inl (ApiConnectionError
            (Text (lit ''Failed to connect to the API: Expecting value: line 1 column 1 (char 0)''))) \<and>
   (\<exists>m. on_http_error resp_not_modified = Inl (ApiConnectionError m)) \<and>
   \<not> (400 \<le> status_code resp_processed \<and> status_code resp_processed < 600) \<and>
   handle_response resp_processed =
     Inr (JObj [(lit ''document'', JObj []), (lit ''tasks'', JArr [])])"
proof -
  have h: "\<not> (400 \<le> status_code resp_not_modified \<and> status_code resp_not_modified < 600)"
    by (simp add: resp_not_modified_def)
  have g: "\<not> (400 \<le> status_code resp_processed \<and> status_code resp_processed < 600)"
    by (simp add: resp_processed_def)
  have "handle_response resp_processed =
     Inr (JObj [(lit ''document'', JObj []), (lit ''tasks'', JArr [])])"
    using other_status_connection_error [OF g] by (simp add: resp_processed_def)
  then show ?thesis
    using h g other_status_connection_error [OF h]
    by (simp add: resp_not_modified_def)
qed

text \<open>
  A 304 with an empty body is neither 2xx, 4xx nor 5xx. Response handling raises an
  \<open>ApiConnectionError\<close> for it, and so does the handler of an HTTP error with this
  status; neither is an \<open>ApiServerError\<close>.
\<close>

theorem other_status_counterexample:
  "\<not> (200 \<le> status_code resp_not_modified \<and> status_code resp_not_modified < 300) \<and>
   \<not> (400 \<le> status_code resp_not_modified \<and> status_code resp_not_modified < 600) \<and>
   handle_response resp_not_modified =
     Inl (ApiConnectionError
            (Text (lit ''Failed to connect to the API: Expecting value: line 1 column 1 (char 0)''))) \<and>
   on_http_error resp_not_modified =
     Inl (ApiConnectionError (Text (lit ''Unexpected HTTP Error (304): ''))) \<and>
   is_connection_error (ApiConnectionError (Text (lit ''Unexpected HTTP Error (304): ''))) \<and>
   \<not> is_server_error (ApiConnectionError (Text (lit ''Unexpected HTTP Error (304): '')))"
  by (simp add: handle_not_modified)
     (simp add: on_http_error_def resp_not_modified_def str_int_304)

subsection \<open>Successful responses\<close>



text \<open>
  Claim C8. For every response with status 204, response handling returns the empty
  dictionary whatever the body is and whatever decoding it would give, and so does each
  of the three operations whose request the server answers with that response.
\<close>

theorem no_content_empty_result:
  assumes "status_code r = 204"
  shows "handle_response r = Inr (JObj []) \<and>
    handle_response (r\<lparr>resp_json := parsed\<rparr>) = Inr (JObj []) \<and>
    (\<forall>req. snd (health_check self session) = [req] \<and> session req = Inr r \<longrightarrow>
       fst (health_check self session) = Inr (JObj [])) \<and>
    (\<forall>req. snd (upload_file self session file_content file_name) = [req] \<and>
         session req = Inr r \<longrightarrow>
       fst (upload_file self session file_content file_name) = Inr (JObj [])) \<and>
    (\<forall>req. snd (process_text self session text document_name) = [req] \<and>
         session req = Inr r \<longrightarrow>
       fst (process_text self session text document_name) = Inr (JObj []))"
proof -
  have "handle_response (r\<lparr>resp_json := parsed\<rparr>) = Inr (JObj [])"
    using assms by (simp add: handle_response_204)
  moreover have "status_code r \<notin> set retry_statuses"
    using assms by (simp add: retry_statuses_def)
  ultimately show ?thesis
    using handle_response_204 [OF assms]
    by (auto dest: health_check_answered upload_file_answered process_text_answered)
qed

text \<open>A 204 with an empty body, which does not decode as JSON, answering each operation.\<close>

theorem no_content_empty_result_witness:
  "status_code resp_no_content = 204 \<and>
   resp_json resp_no_content = Inl (lit ''Expecting value: line 1 column 1 (char 0)'') \<and>
   handle_response resp_no_content = Inr (JObj []) \<and>
   fst (health_check client_x (always resp_no_content)) = Inr (JObj []) \<and>
   snd (upload_file client_x (always resp_no_content) ''hello'' (lit ''a.txt'')) =
     [PostFiles (lit ''http://x/api/upload'') [(lit ''file'', (lit ''a.txt'', ''hello''))] 30] \<and>
   fst (upload_file client_x (always resp_no_content) ''hello'' (lit ''a.txt'')) = Inr (JObj []) \<and>
   fst (process_text client_x (always resp_no_content) (lit ''buy milk'') None) = Inr (JObj [])"
proof -
  have h: "status_code resp_no_content = 204"
    by (simp add: resp_no_content_def)
  have j: "resp_json resp_no_content = Inl (lit ''Expecting value: line 1 column 1 (char 0)'')"
    by (simp add: resp_no_content_def)
  have q: "snd (upload_file client_x (always resp_no_content) ''hello'' (lit ''a.txt'')) =
     [PostFiles (lit ''http://x/api/upload'') [(lit ''file'', (lit ''a.txt'', ''hello''))] 30]"
    by (simp add: upload_file_def send_snd client_x_def)
  note inst = no_content_empty_result
      [OF h, of "Inr JNull" client_x "always resp_no_content" "''hello''" "lit ''a.txt''"
        "lit ''buy milk''" None]
  have k: "fst (health_check client_x (always resp_no_content)) = Inr (JObj [])"
    using inst by (simp add: health_check_snd always_def)
  have u: "fst (upload_file client_x (always resp_no_content) ''hello'' (lit ''a.txt'')) =
      Inr (JObj [])"
    using inst by (simp add: upload_file_def send_snd always_def)
  have p: "fst (process_text client_x (always resp_no_content) (lit ''buy milk'') None) =
      Inr (JObj [])"
    using inst by (simp add: process_text_def send_snd always_def strip_def py_isspace_def)
  show ?thesis
    using h j q k u p inst by simp
qed

subsection \<open>Construction\<close>

text \<open>
  Claim C9. Constructing the client raises an error exactly when the base URL is empty.
  For every other base URL the construction succeeds, and the stored base URL is the
  given one without its trailing \<open>/\<close> characters: the given URL is the stored one followed
  by \<open>/\<close> characters only, and the stored one does not end in \<open>/\<close>.
\<close>

theorem init_base_url:
  "((\<exists>e. init url t n = Inl e) \<longleftrightarrow> url = []) \<and>
   (url \<noteq> [] \<longrightarrow>
      (\<exists>c k. init url t n = Inr c \<and> url = base_url c @ replicate k 47 \<and>
         (base_url c = [] \<or> last (base_url c) \<noteq> 47) \<and> timeout c = t \<and>
         total (max_retries c) = n))"
proof -
  obtain k where k: "url = rstrip [47] url @ replicate k 47"
    using rstrip_decomp [of url 47] by blast
  have l: "rstrip [47] url = [] \<or> last (rstrip [47] url) \<noteq> 47"
    by (rule rstrip_last)
  have "url \<noteq> [] \<longrightarrow>
      (\<exists>c k. init url t n = Inr c \<and> url = base_url c @ replicate k 47 \<and>
         (base_url c = [] \<or> last (base_url c) \<noteq> 47) \<and> timeout c = t \<and>
         total (max_retries c) = n)"
    using k l by (auto simp: init_def)
  moreover have "(\<exists>e. init url t n = Inl e) \<longleftrightarrow> url = []"
    by (simp add: init_def)
  ultimately show ?thesis by blast
qed

text \<open>The base URL \<open>http://x/api//\<close>, and the empty one.\<close>

theorem init_base_url_witness:
  "lit ''http://x/api//'' \<noteq> [] \<and>
   init (lit ''http://x/api//'') 30 3 = Inr client_x \<and>
   (\<exists>c k. init (lit ''http://x/api//'') 30 3 = Inr c \<and>
      lit ''http://x/api//'' = base_url c @ replicate k 47 \<and>
      (base_url c = [] \<or> last (base_url c) \<noteq> 47) \<and> timeout c = 30 \<and>
      total (max_retries c) = 3) \<and>
   (\<exists>e. init [] 30 3 = Inl e)"
proof -
  have h: "lit ''http://x/api//'' \<noteq> []" by simp
  have i: "init (lit ''http://x/api//'') 30 3 = Inr client_x"
    by (simp add: init_def rstrip_def client_x_def)
  show ?thesis
    using h i init_base_url [of "lit ''http://x/api//''" 30 3] init_base_url [of "[]" 30 3]
    by blast
qed

subsection \<open>The body of a text request\<close>

text \<open>
  Claim C10. For every text that is not empty and not all whitespace, \<open>process_text\<close>
  issues one JSON POST to \<open>{base}/process-text\<close> whose body always has the field \<open>text\<close>,
  holding the text, and has the field \<open>name\<close> exactly when the document name is a
  non-empty string, which it then holds; with no document name and with the empty
  string as document name the field is left out. The body has no other field.
\<close>

theorem process_text_payload:
  assumes "text \<noteq> []" and "\<not> (\<forall>c\<in>set text. py_isspace c)"
  shows "\<exists>payload.
     snd (process_text self session text document_name) =
       [PostJson (base_url self @ lit ''/process-text'') (JObj payload) (timeout self)] \<and>
     map_of payload (lit ''text'') = Some (JStr text) \<and>
     (lit ''name'' \<in> fst ` set payload \<longleftrightarrow> (\<exists>name. document_name = Some name \<and> name \<noteq> [])) \<and>
     (\<forall>name. document_name = Some name \<and> name \<noteq> [] \<longrightarrow>
        map_of payload (lit ''name'') = Some (JStr name)) \<and>
     fst ` set payload \<subseteq> {lit ''text'', lit ''name''}"
proof -
  have s: "strip text \<noteq> []"
    using assms(2) by (simp add: strip_empty_iff)
  show ?thesis
  proof (cases document_name)
    case None
    then show ?thesis
      using assms(1) s by (simp add: process_text_def send_snd)
  next
    case (Some name)
    then show ?thesis
      using assms(1) s by (cases "name = []") (simp_all add: process_text_def send_snd)
  qed
qed

text \<open>The text \<open>buy milk\<close> with the empty string and with \<open>notes\<close> as document name.\<close>

theorem process_text_payload_witness:
  "lit ''buy milk'' \<noteq> [] \<and> \<not> list_all py_isspace (lit ''buy milk'') \<and>
   snd (process_text client_x (always resp_processed) (lit ''buy milk'') (Some [])) =
     [PostJson (lit ''http://x/api/process-text'')
        (JObj [(lit ''text'', JStr (lit ''buy milk''))]) 30] \<and>
   (\<exists>payload.
     snd (process_text client_x (always resp_processed) (lit ''buy milk'') (Some [])) =
       [PostJson (base_url client_x @ lit ''/process-text'') (JObj payload) (timeout client_x)] \<and>
     map_of payload (lit ''text'') = Some (JStr (lit ''buy milk'')) \<and>
     lit ''name'' \<notin> fst ` set payload) \<and>
   (\<exists>payload.
     snd (process_text client_x (always resp_processed) (lit ''buy milk'') (Some (lit ''notes''))) =
       [PostJson (base_url client_x @ lit ''/process-text'') (JObj payload) (timeout client_x)] \<and>
     map_of payload (lit ''name'') = Some (JStr (lit ''notes'')))"
proof -
  have h: "lit ''buy milk'' \<noteq> []" "\<not> (\<forall>c\<in>set (lit ''buy milk''). py_isspace c)"
    by (simp_all add: py_isspace_def)
  have q: "snd (process_text client_x (always resp_processed) (lit ''buy milk'') (Some [])) =
     [PostJson (lit ''http://x/api/process-text'')
        (JObj [(lit ''text'', JStr (lit ''buy milk''))]) 30]"
    by (simp add: process_text_def send_snd strip_def py_isspace_def client_x_def)
  have e: "\<exists>payload.
     snd (process_text client_x (always resp_processed) (lit ''buy milk'') (Some [])) =
       [PostJson (base_url client_x @ lit ''/process-text'') (JObj payload) (timeout client_x)] \<and>
     map_of payload (lit ''text'') = Some (JStr (lit ''buy milk'')) \<and>
     lit ''name'' \<notin> fst ` set payload"
    using process_text_payload [OF h, of client_x "always resp_processed" "Some []"] by auto
  have n: "\<exists>payload.
     snd (process_text client_x (always resp_processed) (lit ''buy milk'') (Some (lit ''notes''))) =
       [PostJson (base_url client_x @ lit ''/process-text'') (JObj payload) (timeout client_x)] \<and>
     map_of payload (lit ''name'') = Some (JStr (lit ''notes''))"
    using process_text_payload [OF h, of client_x "always resp_processed" "Some (lit ''notes'')"]
    by auto
  have w: "\<not> list_all py_isspace (lit ''buy milk'')"
    by (simp add: py_isspace_def)
  show ?thesis
    using h(1) w q e n by blast
qed

end
